theory Spec2Isabelle
  imports Main
begin

section \<open>The upload workflow of \<open>my-ocr/src/App.jsx\<close>\<close>

text \<open>
  The component \<open>App\<close> keeps its interaction state in React state hooks and changes it
  only through the hooks' setters, called from event handlers. The model is explicit
  state passing: a record of the hook values, one function per setter, one function per
  handler, each taking the state before the event and returning the state after it.

  Besides the hook values the record carries what the handlers do to the outside: the
  sequence of setter, timer and network calls they issue, in program order
  (\<open>calls\<close>), the hide-timers scheduled with \<open>setTimeout\<close> and not yet fired
  (\<open>timers\<close>, as due times in milliseconds), and the clock those due times are read
  against. \<open>console.log\<close>, \<open>console.error\<close> and \<open>event.preventDefault()\<close> act on the
  console and on the browser event only and are left out.
\<close>

subsection \<open>Values\<close>

text \<open>
  Strings are byte lists; text outside ASCII is written as its UTF-8 bytes.
  A JavaScript value as \<open>response.json()\<close> produces it, with \<open>undefined\<close> added for the
  value of a missing property. Numbers are integers, the documented shape of
  \<open>text_regions_detected\<close>; an object is the list of its own properties, each key once.
\<close>

datatype jsval =
    JUndefined
  | JNull
  | JBool bool
  | JNum int
  | JStr string
  | JArr "jsval list"
  | JObj "(string \<times> jsval) list"

text \<open>The \<open>File\<close> object of the picker or of a drop: its name and declared MIME type.\<close>

record jsfile =
  file_name :: string
  file_type :: string

record messageBox =
  visible :: bool
  content :: string

text \<open>Every call a handler issues that acts on the state or on the outside.\<close>

datatype call =
    SetSelectedImage "jsfile option"
  | SetHighlightedImageSrc jsval
  | SetTextRegionsDetected jsval
  | SetIsDragOver bool
  | SetIsProcessing bool
  | SetShowResultPage bool
  | SetError jsval
  | SetMessageBox bool string
  | SetTimeout nat
  | Fetch string string jsfile

record app =
  selectedImage :: "jsfile option"
  highlightedImageSrc :: jsval
  textRegionsDetected :: jsval
  isDragOver :: bool
  isProcessing :: bool
  ocrFeatureMessage :: string
  showResultPage :: bool
  error :: jsval
  messageBox :: messageBox
  mobileMenuOpen :: bool
  clock :: nat
  timers :: "nat list"
  calls :: "call list"

text \<open>The initial values of the hooks (lines 5 to 15), with no call issued yet.\<close>

definition init :: app where
  "init = \<lparr> selectedImage = None,
            highlightedImageSrc = JNull,
            textRegionsDetected = JNum 0,
            isDragOver = False,
            isProcessing = False,
            ocrFeatureMessage = ''Text extraction coming soon! For now, you can see the detected text highlighted in the image preview.'',
            showResultPage = False,
            error = JStr [],
            messageBox = \<lparr> visible = False, content = [] \<rparr>,
            mobileMenuOpen = False,
            clock = 0,
            timers = [],
            calls = [] \<rparr>"

definition API_BASE_URL :: string where
  "API_BASE_URL = ''https://ocr-production-0ada.up.railway.app''"

subsection \<open>The JavaScript operations the handlers use\<close>

text \<open>\<open>s.startsWith(p)\<close>.\<close>

definition startsWith :: "string \<Rightarrow> string \<Rightarrow> bool" where
  "startsWith s p = (take (length p) s = p)"

text \<open>Truthiness, as \<open>if (v)\<close>, \<open>!v\<close> and \<open>v || w\<close> test it.\<close>

fun truthy :: "jsval \<Rightarrow> bool" where
  "truthy JUndefined = False"
| "truthy JNull = False"
| "truthy (JBool b) = b"
| "truthy (JNum n) = (n \<noteq> 0)"
| "truthy (JStr s) = (s \<noteq> [])"
| "truthy (JArr xs) = True"
| "truthy (JObj kvs) = True"

text \<open>\<open>v || w\<close>.\<close>

definition or_else :: "jsval \<Rightarrow> jsval \<Rightarrow> jsval" where
  "or_else v w = (if truthy v then v else w)"

text \<open>
  The message of the \<open>TypeError\<close> of a property read on \<open>null\<close> or \<open>undefined\<close>. Its
  wording is the engine's; this is V8's.
\<close>

definition typeErrorMessage :: "jsval \<Rightarrow> string \<Rightarrow> string" where
  "typeErrorMessage v k =
     ''Cannot read properties of '' @ (if v = JNull then ''null'' else ''undefined'')
       @ '' (reading '' @ [CHR 0x27] @ k @ [CHR 0x27] @ '')''"

text \<open>The own property \<open>k\<close> of a parsed object, \<open>undefined\<close> when it has none.\<close>

definition field :: "(string \<times> jsval) list \<Rightarrow> string \<Rightarrow> jsval" where
  "field kvs k = (case map_of kvs k of None \<Rightarrow> JUndefined | Some v \<Rightarrow> v)"

text \<open>
  \<open>v.k\<close> for the keys the handlers read (\<open>success\<close>, \<open>error\<close>, \<open>highlighted_image\<close>,
  \<open>text_regions_detected\<close>): a \<open>TypeError\<close> on \<open>null\<close> and \<open>undefined\<close>, the own property
  of an object, and \<open>undefined\<close> everywhere else, since no prototype defines these keys.
  \<open>Inl\<close> carries the message of the exception.
\<close>

fun get_prop :: "jsval \<Rightarrow> string \<Rightarrow> string + jsval" where
  "get_prop JUndefined k = Inl (typeErrorMessage JUndefined k)"
| "get_prop JNull k = Inl (typeErrorMessage JNull k)"
| "get_prop (JObj kvs) k = Inr (field kvs k)"
| "get_prop v k = Inr JUndefined"

text \<open>Decimal digits of a natural number, as \<open>String(n)\<close> writes them.\<close>

fun digits :: "nat \<Rightarrow> string" where
  "digits n = (if n < 10 then [char_of (48 + n)]
               else digits (n div 10) @ [char_of (48 + n mod 10)])"

declare digits.simps [simp del]

definition show_int :: "int \<Rightarrow> string" where
  "show_int i = (if i < 0 then CHR ''-'' # digits (nat (- i)) else digits (nat i))"

text \<open>\<open>xs.join(",")\<close> on strings already converted.\<close>

fun join_comma :: "string list \<Rightarrow> string" where
  "join_comma [] = []"
| "join_comma [x] = x"
| "join_comma (x # y # ys) = x @ CHR '','' # join_comma (y # ys)"

text \<open>All conversions succeeded, or one threw.\<close>

fun sequence :: "'a option list \<Rightarrow> 'a list option" where
  "sequence [] = Some []"
| "sequence (None # xs) = None"
| "sequence (Some x # xs) = (case sequence xs of None \<Rightarrow> None | Some ys \<Rightarrow> Some (x # ys))"

text \<open>
  \<open>ToString\<close>, which \<open>new Error(v)\<close> applies to its argument. An array joins its
  elements with commas, \<open>null\<close> and \<open>undefined\<close> elements as empty strings. A parsed object
  gives \<open>[object Object]\<close>, unless it has an own property \<open>toString\<close>: that is a JSON
  value, not callable, and the conversion throws a \<open>TypeError\<close> (\<open>None\<close>).
\<close>

fun js_to_string :: "jsval \<Rightarrow> string option" where
  "js_to_string JUndefined = Some ''undefined''"
| "js_to_string JNull = Some ''null''"
| "js_to_string (JBool b) = Some (if b then ''true'' else ''false'')"
| "js_to_string (JNum n) = Some (show_int n)"
| "js_to_string (JStr s) = Some s"
| "js_to_string (JArr xs) =
     map_option join_comma
       (sequence (map (\<lambda>x. if x = JNull \<or> x = JUndefined then Some [] else js_to_string x) xs))"
| "js_to_string (JObj kvs) =
     (if map_of kvs ''toString'' = None then Some ''[object Object]'' else None)"

definition toPrimitiveErrorMessage :: string where
  "toPrimitiveErrorMessage = ''Cannot convert object to primitive value''"

subsection \<open>The setters\<close>

definition setSelectedImage :: "jsfile option \<Rightarrow> app \<Rightarrow> app" where
  "setSelectedImage v s = s\<lparr> selectedImage := v, calls := calls s @ [SetSelectedImage v] \<rparr>"

definition setHighlightedImageSrc :: "jsval \<Rightarrow> app \<Rightarrow> app" where
  "setHighlightedImageSrc v s =
     s\<lparr> highlightedImageSrc := v, calls := calls s @ [SetHighlightedImageSrc v] \<rparr>"

definition setTextRegionsDetected :: "jsval \<Rightarrow> app \<Rightarrow> app" where
  "setTextRegionsDetected v s =
     s\<lparr> textRegionsDetected := v, calls := calls s @ [SetTextRegionsDetected v] \<rparr>"

definition setIsDragOver :: "bool \<Rightarrow> app \<Rightarrow> app" where
  "setIsDragOver v s = s\<lparr> isDragOver := v, calls := calls s @ [SetIsDragOver v] \<rparr>"

definition setIsProcessing :: "bool \<Rightarrow> app \<Rightarrow> app" where
  "setIsProcessing v s = s\<lparr> isProcessing := v, calls := calls s @ [SetIsProcessing v] \<rparr>"

definition setShowResultPage :: "bool \<Rightarrow> app \<Rightarrow> app" where
  "setShowResultPage v s = s\<lparr> showResultPage := v, calls := calls s @ [SetShowResultPage v] \<rparr>"

definition setError :: "jsval \<Rightarrow> app \<Rightarrow> app" where
  "setError v s = s\<lparr> error := v, calls := calls s @ [SetError v] \<rparr>"

definition setMessageBox :: "bool \<Rightarrow> string \<Rightarrow> app \<Rightarrow> app" where
  "setMessageBox vis msg s =
     s\<lparr> messageBox := \<lparr> visible = vis, content = msg \<rparr>,
        calls := calls s @ [SetMessageBox vis msg] \<rparr>"

subsection \<open>The notifier (lines 21 to 26)\<close>

text \<open>
  \<open>setTimeout(f, 3000)\<close>: a timer due 3000 ms from now joins the pending ones. Every
  timer of this program has the same callback, \<open>setMessageBox({visible: false, content: ''})\<close>,
  so a pending timer is its due time. No handler calls \<open>clearTimeout\<close>.
\<close>

definition setTimeout :: "nat \<Rightarrow> app \<Rightarrow> app" where
  "setTimeout delay s =
     s\<lparr> timers := timers s @ [clock s + delay], calls := calls s @ [SetTimeout delay] \<rparr>"

definition showCustomMessageBox :: "string \<Rightarrow> app \<Rightarrow> app" where
  "showCustomMessageBox message s = setTimeout 3000 (setMessageBox True message s)"

text \<open>
  \<open>d\<close> milliseconds pass with no other event: the timers due by then fire, in the order
  they were scheduled, each running its callback; the others stay pending. A timer fires
  when its delay has elapsed, not later.
\<close>

definition elapse :: "nat \<Rightarrow> app \<Rightarrow> app" where
  "elapse d s =
     (let now = clock s + d;
          due = filter (\<lambda>t. t \<le> now) (timers s);
          s' = s\<lparr> clock := now, timers := filter (\<lambda>t. now < t) (timers s) \<rparr>
      in fold (\<lambda>t. setMessageBox False []) due s')"

subsection \<open>The upload surface (lines 29 to 68)\<close>

text \<open>
  The argument is \<open>event.target.files\<close>, respectively \<open>event.dataTransfer.files\<close>;
  \<open>files[0]\<close> is \<open>undefined\<close> on the empty list.
\<close>

definition first_file :: "jsfile list \<Rightarrow> jsfile option" where
  "first_file files = (case files of [] \<Rightarrow> None | f # _ \<Rightarrow> Some f)"

definition handleFileChange :: "jsfile list \<Rightarrow> app \<Rightarrow> app" where
  "handleFileChange files s =
     (case first_file files of
        None \<Rightarrow> s
      | Some f \<Rightarrow>
          if startsWith (file_type f) ''image/''
          then setError (JStr []) (setSelectedImage (Some f) s)
          else setSelectedImage None
                 (setError (JStr ''Please upload an image file (JPG, PNG). PDF support for detection is not yet available.'') s))"

definition handleDragOver :: "app \<Rightarrow> app" where
  "handleDragOver s = setIsDragOver True s"

definition handleDragLeave :: "app \<Rightarrow> app" where
  "handleDragLeave s = setIsDragOver False s"

definition handleDrop :: "jsfile list \<Rightarrow> app \<Rightarrow> app" where
  "handleDrop files s =
     (let s1 = setIsDragOver False s in
      case first_file files of
        None \<Rightarrow> s1
      | Some f \<Rightarrow>
          if startsWith (file_type f) ''image/''
          then setError (JStr []) (setSelectedImage (Some f) s1)
          else setSelectedImage None (setError (JStr ''Please drop an image file (JPG, PNG).'') s1))"

subsection \<open>The submission controller (lines 71 to 124)\<close>

text \<open>
  What the network answers. \<open>fetch\<close> either rejects, with an error whose message is
  given, or resolves to a response: its status, its status text, and what
  \<open>response.json()\<close> resolves to, the parsed body or (\<open>Inl\<close>) the message of the error it
  rejects with.
\<close>

record response =
  status :: nat
  statusText :: string
  json :: "string + jsval"

datatype fetch_result = Rejected string | Resolved response

text \<open>\<open>response.ok\<close>: the status is in the range 200 to 299.\<close>

definition ok :: "response \<Rightarrow> bool" where
  "ok r = (200 \<le> status r \<and> status r \<le> 299)"

text \<open>UTF-8 of U+1F389 and of U+274C, the marks the notifications start with.\<close>

definition party_popper :: string where
  "party_popper = [CHR 0xF0, CHR 0x9F, CHR 0x8E, CHR 0x89]"

definition cross_mark :: string where
  "cross_mark = [CHR 0xE2, CHR 0x9D, CHR 0x8C]"

text \<open>
  Lines 93 to 103, the response that is not \<open>ok\<close>: the message of the \<open>Error\<close> thrown at
  line 102, or of the \<open>TypeError\<close> that reading \<open>errorData.error\<close> or converting it throws.
\<close>

definition http_error_message :: "response \<Rightarrow> string" where
  "http_error_message r =
     (let errorData = (case json r of
                         Inr v \<Rightarrow> v
                       | Inl jsonError \<Rightarrow> JObj [(''error'', JStr (statusText r))])
      in case get_prop errorData ''error'' of
           Inl m \<Rightarrow> m
         | Inr e \<Rightarrow>
             (case js_to_string (or_else e (JStr (''HTTP error! status: '' @ digits (status r)))) of
                None \<Rightarrow> toPrimitiveErrorMessage
              | Some m \<Rightarrow> m))"

text \<open>
  Lines 105 to 116, the response that is \<open>ok\<close>, once its body is parsed. A step that
  throws ends the block: \<open>Inl\<close> carries the message of the exception and the state
  reached when it was thrown.
\<close>

definition on_result :: "jsval \<Rightarrow> app \<Rightarrow> (string \<times> app) + app" where
  "on_result result s =
     (case get_prop result ''success'' of
        Inl m \<Rightarrow> Inl (m, s)
      | Inr success \<Rightarrow>
          if truthy success
          then (case get_prop result ''highlighted_image'' of
                  Inl m \<Rightarrow> Inl (m, s)
                | Inr highlighted_image \<Rightarrow>
                    let s1 = setHighlightedImageSrc highlighted_image s in
                    (case get_prop result ''text_regions_detected'' of
                       Inl m \<Rightarrow> Inl (m, s1)
                     | Inr text_regions_detected \<Rightarrow>
                         Inr (setShowResultPage True
                           (showCustomMessageBox (party_popper @ '' Text detection complete!'')
                             (setTextRegionsDetected text_regions_detected s1)))))
          else (case get_prop result ''error'' of
                  Inl m \<Rightarrow> Inl (m, s)
                | Inr e \<Rightarrow>
                    Inr (showCustomMessageBox (cross_mark @ '' Detection failed. Please try again.'')
                      (setError (or_else e (JStr ''Unknown error occurred during detection.'')) s))))"

text \<open>The body of the \<open>try\<close> after the call of \<open>fetch\<close> (lines 88 to 116).\<close>

definition try_block :: "fetch_result \<Rightarrow> app \<Rightarrow> (string \<times> app) + app" where
  "try_block fr s =
     (case fr of
        Rejected m \<Rightarrow> Inl (m, s)
      | Resolved r \<Rightarrow>
          if \<not> ok r then Inl (http_error_message r, s)
          else (case json r of
                  Inl m \<Rightarrow> Inl (m, s)
                | Inr result \<Rightarrow> on_result result s))"

text \<open>The \<open>catch\<close> (lines 117 to 120), given \<open>err.message\<close>.\<close>

definition catch_block :: "string \<Rightarrow> app \<Rightarrow> app" where
  "catch_block m s =
     showCustomMessageBox (cross_mark @ '' Detection failed. Please check backend connection.'')
       (setError (JStr (''Failed to connect to backend or process image: '' @ m
                        @ ''. Please ensure the backend is running.'')) s)"

text \<open>Lines 77 to 91: the setters before the request, and the request.\<close>

definition fetch :: "jsfile \<Rightarrow> app \<Rightarrow> app" where
  "fetch f s = s\<lparr> calls := calls s @ [Fetch (API_BASE_URL @ ''/detect-text'') ''POST'' f] \<rparr>"

definition before_await :: "jsfile \<Rightarrow> app \<Rightarrow> app" where
  "before_await f s =
     fetch f (setTextRegionsDetected (JNum 0)
       (setHighlightedImageSrc JNull
         (setError (JStr [])
           (setIsProcessing True s))))"

text \<open>Lines 92 to 123: what runs once the request has settled, the \<open>finally\<close> last.\<close>

definition after_await :: "fetch_result \<Rightarrow> app \<Rightarrow> app" where
  "after_await fr s =
     setIsProcessing False
       (case try_block fr s of
          Inr s' \<Rightarrow> s'
        | Inl (m, s') \<Rightarrow> catch_block m s')"

text \<open>
  The whole handler, for the answer \<open>fr\<close> of the network, with no other event between
  the request and its answer.
\<close>

definition processTextDetection :: "fetch_result \<Rightarrow> app \<Rightarrow> app" where
  "processTextDetection fr s =
     (case selectedImage s of
        None \<Rightarrow> setError (JStr ''Please select an image to process.'') s
      | Some f \<Rightarrow> after_await fr (before_await f s))"

subsection \<open>The reset (lines 126 to 132)\<close>

definition handleBackToInput :: "app \<Rightarrow> app" where
  "handleBackToInput s =
     setError (JStr [])
       (setTextRegionsDetected (JNum 0)
         (setHighlightedImageSrc JNull
           (setSelectedImage None
             (setShowResultPage False s))))"

subsection \<open>Concrete inputs\<close>

definition sample_image :: jsfile where
  "sample_image = \<lparr> file_name = ''scan.png'', file_type = ''image/png'' \<rparr>"

definition sample_pdf :: jsfile where
  "sample_pdf = \<lparr> file_name = ''scan.pdf'', file_type = ''application/pdf'' \<rparr>"

text \<open>The state after mounting and choosing \<open>scan.png\<close>.\<close>

definition ready :: app where
  "ready = init\<lparr> selectedImage := Some sample_image \<rparr>"

definition success_response :: response where
  "success_response =
     \<lparr> status = 200, statusText = ''OK'',
       json = Inr (JObj [(''success'', JBool True), (''highlighted_image'', JStr ''data:...''),
                         (''text_regions_detected'', JNum 42)]) \<rparr>"

definition failure_response :: response where
  "failure_response =
     \<lparr> status = 200, statusText = ''OK'',
       json = Inr (JObj [(''success'', JBool False), (''error'', JStr ''no text model'')]) \<rparr>"

definition bad_image_response :: response where
  "bad_image_response =
     \<lparr> status = 400, statusText = ''Bad Request'',
       json = Inr (JObj [(''error'', JStr ''bad image'')]) \<rparr>"

definition unparseable_response :: response where
  "unparseable_response =
     \<lparr> status = 503, statusText = ''Service Unavailable'', json = Inl ''Unexpected token <'' \<rparr>"

section \<open>Properties\<close>

lemmas setter_defs = setSelectedImage_def setHighlightedImageSrc_def setTextRegionsDetected_def
  setIsDragOver_def setIsProcessing_def setShowResultPage_def setError_def setMessageBox_def
  setTimeout_def showCustomMessageBox_def fetch_def

lemmas submit_defs = processTextDetection_def after_await_def before_await_def try_block_def
  on_result_def catch_block_def

lemmas sample_defs = sample_image_def sample_pdf_def ready_def success_response_def
  failure_response_def bad_image_response_def unparseable_response_def init_def

subsection \<open>Exceptions of the \<open>try\<close> block\<close>

text \<open>
  An exception leaves the \<open>try\<close> block before any of its setters has run: the state the
  \<open>catch\<close> starts from is the state the block started from.
\<close>

lemma on_result_throws_state: "on_result result s = Inl (m, s1) \<Longrightarrow> s1 = s"
  by (cases result) (auto simp: on_result_def Let_def split: sum.splits if_splits)

lemma try_block_throws_state: "try_block fr s = Inl (m, s1) \<Longrightarrow> s1 = s"
  by (auto simp: try_block_def split: fetch_result.splits sum.splits if_splits
      dest: on_result_throws_state)

text \<open>A rejected \<open>fetch\<close> and a body of an \<open>ok\<close> response that does not parse both throw.\<close>

lemma try_block_Rejected: "try_block (Rejected m) s = Inl (m, s)"
  by (simp add: try_block_def)

lemma try_block_malformed_body:
  "ok r \<Longrightarrow> json r = Inl m \<Longrightarrow> try_block (Resolved r) s = Inl (m, s)"
  by (simp add: try_block_def)

text \<open>The handlers only append to the sequence of calls, and the \<open>finally\<close> comes last.\<close>

lemma on_result_extends_calls:
  "on_result result s = Inr s' \<Longrightarrow> \<exists>rest. calls s' = calls s @ rest"
  by (cases result) (auto simp: on_result_def Let_def setter_defs split: sum.splits if_splits)

lemma try_block_extends_calls:
  "try_block fr s = Inr s' \<Longrightarrow> \<exists>rest. calls s' = calls s @ rest"
  by (auto simp: try_block_def split: fetch_result.splits sum.splits if_splits
      dest: on_result_extends_calls)

lemma after_await_extends_calls:
  "\<exists>rest. calls (after_await fr s) = calls s @ rest @ [SetIsProcessing False]"
proof (cases "try_block fr s")
  case (Inl e)
  then obtain m s1 where e: "try_block fr s = Inl (m, s1)"
    by (cases e) simp
  then have "s1 = s"
    by (rule try_block_throws_state)
  with e show ?thesis
    by (simp add: after_await_def catch_block_def setter_defs)
next
  case (Inr s')
  then obtain rest where "calls s' = calls s @ rest"
    using try_block_extends_calls by blast
  with Inr show ?thesis
    by (simp add: after_await_def setIsProcessing_def)
qed

text \<open>However many timers fire together, the message box ends hidden; with none it stays.\<close>

lemma fold_hide:
  "messageBox (fold (\<lambda>t. setMessageBox False []) ts s) =
     (if ts = [] then messageBox s else \<lparr> visible = False, content = [] \<rparr>)"
  by (induction ts arbitrary: s) (simp_all add: setMessageBox_def)

lemma digits_503: "digits 503 = ''503''"
  by code_simp

subsection \<open>Submission: application success\<close>

text \<open>
  C1. A file is selected, the backend answers with a 2xx status and a body that parses to
  an object whose \<open>success\<close> is true (or any other truthy value). Then the submission
  stores the payload's \<open>highlighted_image\<close> and \<open>text_regions_detected\<close>, shows the success
  notification and schedules its hiding, switches to the result page, and ends with the
  busy flag false. The equation gives the whole state after the submission, and with it
  every call issued, in order.
\<close>

theorem success_stores_result:
  assumes "selectedImage s = Some f" and "ok r" and "json r = Inr (JObj kvs)"
    and "truthy (field kvs ''success'')"
  shows "processTextDetection (Resolved r) s =
           s\<lparr> highlightedImageSrc := field kvs ''highlighted_image'',
              textRegionsDetected := field kvs ''text_regions_detected'',
              isProcessing := False,
              showResultPage := True,
              error := JStr [],
              messageBox := \<lparr> visible = True,
                              content = party_popper @ '' Text detection complete!'' \<rparr>,
              timers := timers s @ [clock s + 3000],
              calls := calls s @
                [SetIsProcessing True, SetError (JStr []), SetHighlightedImageSrc JNull,
                 SetTextRegionsDetected (JNum 0),
                 Fetch (API_BASE_URL @ ''/detect-text'') ''POST'' f,
                 SetHighlightedImageSrc (field kvs ''highlighted_image''),
                 SetTextRegionsDetected (field kvs ''text_regions_detected''),
                 SetMessageBox True (party_popper @ '' Text detection complete!''),
                 SetTimeout 3000, SetShowResultPage True, SetIsProcessing False] \<rparr>"
  using assms by (simp add: submit_defs setter_defs)

text \<open>
  The payload \<open>{success: true, highlighted_image: "data:...", text_regions_detected: 42}\<close>:
  the result page is shown, the count is 42 and the busy flag is false.
\<close>

theorem success_stores_result_witness:
  "selectedImage ready = Some sample_image \<and> ok success_response
   \<and> truthy (field [(''success'', JBool True), (''highlighted_image'', JStr ''data:...''),
                      (''text_regions_detected'', JNum 42)] ''success'')
   \<and> showResultPage (processTextDetection (Resolved success_response) ready)
   \<and> textRegionsDetected (processTextDetection (Resolved success_response) ready) = JNum 42
   \<and> highlightedImageSrc (processTextDetection (Resolved success_response) ready)
       = JStr ''data:...''
   \<and> visible (messageBox (processTextDetection (Resolved success_response) ready))
   \<and> \<not> isProcessing (processTextDetection (Resolved success_response) ready)"
  using success_stores_result [of ready sample_image success_response
      "[(''success'', JBool True), (''highlighted_image'', JStr ''data:...''),
        (''text_regions_detected'', JNum 42)]"]
  by (simp add: sample_defs ok_def field_def)

subsection \<open>Submission: HTTP status outside 2xx\<close>

text \<open>
  C2, as stated, fails: for the status 400 with the body \<open>{"error": "bad image"}\<close> the
  error shown is not \<open>bad image\<close>. The \<open>Error\<close> thrown at line 102 is caught by the
  \<open>catch\<close> of the same function, which puts its message inside the connectivity wording.
\<close>

theorem http_error_not_verbatim:
  "error (processTextDetection (Resolved bad_image_response) ready) \<noteq> JStr ''bad image''"
  by (simp add: submit_defs setter_defs sample_defs ok_def http_error_message_def field_def
      or_else_def)

text \<open>
  C2, amended. A file is selected and the status is outside 200 to 299. If the body parses
  to an object whose \<open>error\<close> is a non-empty string \<open>msg\<close>, the error shown is
  \<open>Failed to connect to backend or process image: msg. Please ensure the backend is running.\<close>
  If the body does not parse, the same wording carries the status text, or
  \<open>HTTP error! status: n\<close> when the status text is empty. In every case the failure
  notification about the backend connection is shown, the page shown and the selected
  file stay as they were, and the busy flag ends false.
\<close>

theorem http_error_wrapped:
  assumes "selectedImage s = Some f" and "\<not> ok r"
  shows "(json r = Inr (JObj kvs) \<and> map_of kvs ''error'' = Some (JStr msg) \<and> msg \<noteq> [] \<longrightarrow>
            error (processTextDetection (Resolved r) s) =
              JStr (''Failed to connect to backend or process image: '' @ msg
                    @ ''. Please ensure the backend is running.''))
       \<and> (json r = Inl e \<longrightarrow>
            error (processTextDetection (Resolved r) s) =
              JStr (''Failed to connect to backend or process image: ''
                    @ (if statusText r \<noteq> [] then statusText r
                       else ''HTTP error! status: '' @ digits (status r))
                    @ ''. Please ensure the backend is running.''))
       \<and> messageBox (processTextDetection (Resolved r) s) =
            \<lparr> visible = True,
              content = cross_mark @ '' Detection failed. Please check backend connection.'' \<rparr>
       \<and> showResultPage (processTextDetection (Resolved r) s) = showResultPage s
       \<and> selectedImage (processTextDetection (Resolved r) s) = Some f
       \<and> \<not> isProcessing (processTextDetection (Resolved r) s)"
  using assms
  by (simp add: submit_defs setter_defs http_error_message_def field_def or_else_def)

theorem http_error_wrapped_witness:
  "selectedImage ready = Some sample_image \<and> \<not> ok bad_image_response
   \<and> error (processTextDetection (Resolved bad_image_response) ready) =
        JStr ''Failed to connect to backend or process image: bad image. Please ensure the backend is running.''
   \<and> showResultPage (processTextDetection (Resolved bad_image_response) ready) = False
   \<and> \<not> ok unparseable_response
   \<and> error (processTextDetection (Resolved unparseable_response) ready) =
        JStr ''Failed to connect to backend or process image: Service Unavailable. Please ensure the backend is running.''
   \<and> error (processTextDetection (Resolved (unparseable_response\<lparr> statusText := [] \<rparr>)) ready) =
        JStr ''Failed to connect to backend or process image: HTTP error! status: 503. Please ensure the backend is running.''"
  using http_error_wrapped [of ready sample_image bad_image_response
      "[(''error'', JStr ''bad image'')]" "''bad image''"]
    http_error_wrapped [of ready sample_image unparseable_response _ _ "''Unexpected token <''"]
    http_error_wrapped [of ready sample_image "unparseable_response\<lparr> statusText := [] \<rparr>" _ _
      "''Unexpected token <''"]
  by (simp add: sample_defs ok_def digits_503)

subsection \<open>File selection\<close>

text \<open>
  C3. The first file of a selection or of a drop: if its declared type starts with
  \<open>image/\<close>, it becomes the selected file and the error is cleared; otherwise an error
  message is set and no file is selected, whatever was selected before.
\<close>

theorem select_file_by_mime_type:
  assumes "files = f # rest"
  shows "(startsWith (file_type f) ''image/'' \<longrightarrow>
            selectedImage (handleFileChange files s) = Some f
          \<and> error (handleFileChange files s) = JStr []
          \<and> selectedImage (handleDrop files s) = Some f
          \<and> error (handleDrop files s) = JStr [])
       \<and> (\<not> startsWith (file_type f) ''image/'' \<longrightarrow>
            selectedImage (handleFileChange files s) = None
          \<and> error (handleFileChange files s) =
              JStr ''Please upload an image file (JPG, PNG). PDF support for detection is not yet available.''
          \<and> selectedImage (handleDrop files s) = None
          \<and> error (handleDrop files s) = JStr ''Please drop an image file (JPG, PNG).'')"
  using assms by (simp add: handleFileChange_def handleDrop_def first_file_def setter_defs)

theorem select_file_by_mime_type_witness:
  "startsWith (file_type sample_image) ''image/''
   \<and> selectedImage (handleFileChange [sample_image, sample_pdf] init) = Some sample_image
   \<and> error (handleDrop [sample_image] (init\<lparr> error := JStr ''old'' \<rparr>)) = JStr []
   \<and> \<not> startsWith (file_type sample_pdf) ''image/''
   \<and> selectedImage (handleDrop [sample_pdf] ready) = None
   \<and> selectedImage (handleFileChange [sample_pdf, sample_image] ready) = None"
  using select_file_by_mime_type [of "[sample_image, sample_pdf]" sample_image "[sample_pdf]" init]
    select_file_by_mime_type [of "[sample_image]" sample_image "[]"
      "init\<lparr> error := JStr ''old'' \<rparr>"]
    select_file_by_mime_type [of "[sample_pdf]" sample_pdf "[]" ready]
    select_file_by_mime_type [of "[sample_pdf, sample_image]" sample_pdf "[sample_image]" ready]
  by (simp add: sample_defs startsWith_def)

subsection \<open>Submission without a file\<close>

text \<open>
  C4. With no file selected the submission only sets the error message: the state after
  differs from the state before in the error alone, and the one call issued is that
  setter, so no request is sent, the busy flag is not touched and the earlier result is
  kept.
\<close>

theorem submit_without_file:
  assumes "selectedImage s = None"
  shows "processTextDetection fr s =
           s\<lparr> error := JStr ''Please select an image to process.'',
              calls := calls s @ [SetError (JStr ''Please select an image to process.'')] \<rparr>"
  using assms by (simp add: processTextDetection_def setError_def)

theorem submit_without_file_witness:
  "selectedImage init = None
   \<and> processTextDetection (Resolved success_response) init =
       init\<lparr> error := JStr ''Please select an image to process.'',
             calls := [SetError (JStr ''Please select an image to process.'')] \<rparr>"
  using submit_without_file [of init "Resolved success_response"]
  by (simp add: init_def)

subsection \<open>Submission: application failure\<close>

text \<open>
  C5. A file is selected, the status is 2xx and the body parses to an object whose
  \<open>success\<close> is false (or missing, or any other falsy value). Then the error shown is the
  payload's \<open>error\<close>, or \<open>Unknown error occurred during detection.\<close> when the payload has
  none (a missing, empty or otherwise falsy \<open>error\<close>); the failure notification is shown;
  the page shown does not change.
\<close>

theorem application_failure_surfaced:
  assumes "selectedImage s = Some f" and "ok r" and "json r = Inr (JObj kvs)"
    and "\<not> truthy (field kvs ''success'')"
  shows "processTextDetection (Resolved r) s =
           s\<lparr> highlightedImageSrc := JNull,
              textRegionsDetected := JNum 0,
              isProcessing := False,
              error := (if truthy (field kvs ''error'') then field kvs ''error''
                        else JStr ''Unknown error occurred during detection.''),
              messageBox := \<lparr> visible = True,
                              content = cross_mark @ '' Detection failed. Please try again.'' \<rparr>,
              timers := timers s @ [clock s + 3000],
              calls := calls s @
                [SetIsProcessing True, SetError (JStr []), SetHighlightedImageSrc JNull,
                 SetTextRegionsDetected (JNum 0),
                 Fetch (API_BASE_URL @ ''/detect-text'') ''POST'' f,
                 SetError (if truthy (field kvs ''error'') then field kvs ''error''
                           else JStr ''Unknown error occurred during detection.''),
                 SetMessageBox True (cross_mark @ '' Detection failed. Please try again.''),
                 SetTimeout 3000, SetIsProcessing False] \<rparr>"
  using assms by (simp add: submit_defs setter_defs or_else_def)

theorem application_failure_surfaced_witness:
  "selectedImage ready = Some sample_image \<and> ok failure_response
   \<and> \<not> truthy (field [(''success'', JBool False), (''error'', JStr ''no text model'')] ''success'')
   \<and> error (processTextDetection (Resolved failure_response) ready) = JStr ''no text model''
   \<and> showResultPage (processTextDetection (Resolved failure_response) ready) = False
   \<and> \<not> truthy (field [(''success'', JBool False)] ''success'')
   \<and> error (processTextDetection
        (Resolved (failure_response\<lparr> json := Inr (JObj [(''success'', JBool False)]) \<rparr>)) ready)
       = JStr ''Unknown error occurred during detection.''"
  using application_failure_surfaced [of ready sample_image failure_response
      "[(''success'', JBool False), (''error'', JStr ''no text model'')]"]
    application_failure_surfaced [of ready sample_image
      "failure_response\<lparr> json := Inr (JObj [(''success'', JBool False)]) \<rparr>"
      "[(''success'', JBool False)]"]
  by (simp add: sample_defs ok_def field_def)

subsection \<open>Submission: exceptions\<close>

text \<open>
  C6. A file is selected and the \<open>try\<close> block ends with an exception of message \<open>m\<close>
  (\<open>fetch\<close> rejects because the host is unreachable, the body of a 2xx response does not
  parse, ...). Then the error shown is
  \<open>Failed to connect to backend or process image: m. Please ensure the backend is running.\<close>,
  the failure notification asking to check the backend connection is shown, and the
  busy flag ends false.
\<close>

theorem transport_exception_surfaced:
  assumes "selectedImage s = Some f"
    and "try_block fr (before_await f s) = Inl (m, s1)"
  shows "processTextDetection fr s =
           s\<lparr> highlightedImageSrc := JNull,
              textRegionsDetected := JNum 0,
              isProcessing := False,
              error := JStr (''Failed to connect to backend or process image: '' @ m
                             @ ''. Please ensure the backend is running.''),
              messageBox := \<lparr> visible = True,
                  content = cross_mark @ '' Detection failed. Please check backend connection.'' \<rparr>,
              timers := timers s @ [clock s + 3000],
              calls := calls s @
                [SetIsProcessing True, SetError (JStr []), SetHighlightedImageSrc JNull,
                 SetTextRegionsDetected (JNum 0),
                 Fetch (API_BASE_URL @ ''/detect-text'') ''POST'' f,
                 SetError (JStr (''Failed to connect to backend or process image: '' @ m
                                 @ ''. Please ensure the backend is running.'')),
                 SetMessageBox True
                   (cross_mark @ '' Detection failed. Please check backend connection.''),
                 SetTimeout 3000, SetIsProcessing False] \<rparr>"
proof -
  have "s1 = before_await f s"
    using assms(2) by (rule try_block_throws_state)
  then have "processTextDetection fr s = setIsProcessing False (catch_block m (before_await f s))"
    using assms by (simp add: processTextDetection_def after_await_def)
  then show ?thesis
    by (simp add: catch_block_def before_await_def setter_defs)
qed

text \<open>An unreachable host, and a 2xx response whose body is not JSON.\<close>

theorem transport_exception_surfaced_witness:
  "selectedImage ready = Some sample_image
   \<and> try_block (Rejected ''Failed to fetch'') (before_await sample_image ready)
       = Inl (''Failed to fetch'', before_await sample_image ready)
   \<and> error (processTextDetection (Rejected ''Failed to fetch'') ready) =
       JStr ''Failed to connect to backend or process image: Failed to fetch. Please ensure the backend is running.''
   \<and> visible (messageBox (processTextDetection (Rejected ''Failed to fetch'') ready))
   \<and> \<not> isProcessing (processTextDetection (Rejected ''Failed to fetch'') ready)
   \<and> ok (unparseable_response\<lparr> status := 200 \<rparr>)
   \<and> error (processTextDetection (Resolved (unparseable_response\<lparr> status := 200 \<rparr>)) ready) =
       JStr ''Failed to connect to backend or process image: Unexpected token <. Please ensure the backend is running.''
   \<and> \<not> isProcessing
         (processTextDetection (Resolved (unparseable_response\<lparr> status := 200 \<rparr>)) ready)"
proof -
  have h: "selectedImage ready = Some sample_image"
    by (simp add: sample_defs)
  have ok200: "ok (unparseable_response\<lparr> status := 200 \<rparr>)"
    by (simp add: ok_def)
  have body: "json (unparseable_response\<lparr> status := 200 \<rparr>) = Inl ''Unexpected token <''"
    by (simp add: unparseable_response_def)
  show ?thesis
    using h ok200
      transport_exception_surfaced [OF h try_block_Rejected, of "''Failed to fetch''"]
      transport_exception_surfaced [OF h try_block_malformed_body [OF ok200 body]]
    by (simp add: try_block_Rejected)
qed

subsection \<open>The busy flag\<close>

text \<open>
  C7, as stated, fails in the order it gives: the handler calls \<open>setIsProcessing(true)\<close>
  first (line 77) and clears the error and the result after it (lines 78 to 80). The
  calls of a submission whose request is rejected, from a state with an earlier error and
  result:
\<close>

theorem busy_set_before_clears:
  "calls (processTextDetection (Rejected ''Failed to fetch'')
            (ready\<lparr> error := JStr ''old error'', highlightedImageSrc := JStr ''data:old'',
                    textRegionsDetected := JNum 7 \<rparr>)) =
     [SetIsProcessing True, SetError (JStr []), SetHighlightedImageSrc JNull,
      SetTextRegionsDetected (JNum 0),
      Fetch (API_BASE_URL @ ''/detect-text'') ''POST'' sample_image,
      SetError (JStr ''Failed to connect to backend or process image: Failed to fetch. Please ensure the backend is running.''),
      SetMessageBox True (cross_mark @ '' Detection failed. Please check backend connection.''),
      SetTimeout 3000, SetIsProcessing False]"
  by (simp add: submit_defs setter_defs sample_defs)

text \<open>
  C7, amended. For every submission with a file and every answer of the network, the
  busy flag is false when the submission completes, and clearing it is the last call.
  Before the request is sent the busy flag is set to true and the earlier error and
  result are cleared, in that order: the busy flag first, the clearing after it, the
  request last.
\<close>

theorem busy_cleared_on_every_exit:
  assumes "selectedImage s = Some f"
  shows "\<not> isProcessing (processTextDetection fr s)
       \<and> processTextDetection fr s = after_await fr (before_await f s)
       \<and> before_await f s =
           s\<lparr> highlightedImageSrc := JNull, textRegionsDetected := JNum 0,
              isProcessing := True, error := JStr [],
              calls := calls s @
                [SetIsProcessing True, SetError (JStr []), SetHighlightedImageSrc JNull,
                 SetTextRegionsDetected (JNum 0),
                 Fetch (API_BASE_URL @ ''/detect-text'') ''POST'' f] \<rparr>
       \<and> (\<exists>rest. calls (processTextDetection fr s) =
             calls (before_await f s) @ rest @ [SetIsProcessing False])"
proof -
  obtain rest where "calls (after_await fr (before_await f s)) =
      calls (before_await f s) @ rest @ [SetIsProcessing False]"
    using after_await_extends_calls by blast
  then show ?thesis
    using assms
    by (simp add: processTextDetection_def before_await_def setter_defs)
      (simp add: after_await_def setIsProcessing_def)
qed

theorem busy_cleared_on_every_exit_witness:
  "selectedImage ready = Some sample_image
   \<and> \<not> isProcessing (processTextDetection (Resolved success_response) ready)
   \<and> \<not> isProcessing (processTextDetection (Resolved failure_response) ready)
   \<and> \<not> isProcessing (processTextDetection (Resolved bad_image_response) ready)
   \<and> \<not> isProcessing (processTextDetection (Rejected ''Failed to fetch'') ready)
   \<and> isProcessing (before_await sample_image ready)"
proof -
  have h: "selectedImage ready = Some sample_image"
    by (simp add: sample_defs)
  have cleared: "\<not> isProcessing (processTextDetection fr ready)" for fr
    using busy_cleared_on_every_exit [OF h, of fr] by blast
  have "before_await sample_image ready = ready\<lparr> highlightedImageSrc := JNull,
      textRegionsDetected := JNum 0, isProcessing := True, error := JStr [],
      calls := calls ready @
        [SetIsProcessing True, SetError (JStr []), SetHighlightedImageSrc JNull,
         SetTextRegionsDetected (JNum 0),
         Fetch (API_BASE_URL @ ''/detect-text'') ''POST'' sample_image] \<rparr>"
    using busy_cleared_on_every_exit [OF h, of "Rejected ''Failed to fetch''"] by blast
  then have "isProcessing (before_await sample_image ready)"
    by simp
  with h cleared show ?thesis
    by blast
qed

subsection \<open>Reset\<close>

text \<open>
  C8. In any state the reset clears the selected file, the result (image and count) and
  the error in the one step, and returns to the input page; nothing else changes. The
  file and the result are cleared together.
\<close>

theorem reset_clears_together:
  "handleBackToInput s =
     s\<lparr> selectedImage := None, highlightedImageSrc := JNull, textRegionsDetected := JNum 0,
        showResultPage := False, error := JStr [],
        calls := calls s @
          [SetShowResultPage False, SetSelectedImage None, SetHighlightedImageSrc JNull,
           SetTextRegionsDetected (JNum 0), SetError (JStr [])] \<rparr>"
  by (simp add: handleBackToInput_def setter_defs)

subsection \<open>The notifier\<close>

text \<open>
  C9, as stated, fails in its last part. No timer is ever cancelled, so the timer of an
  earlier notification hides a newer message: a first notification, a second one
  2000 ms later, and 1000 ms after the second one the message box is hidden.
\<close>

theorem stale_timer_hides_newer_message:
  "messageBox (elapse 1000 (showCustomMessageBox ''second''
      (elapse 2000 (showCustomMessageBox ''first'' init)))) = \<lparr> visible = False, content = [] \<rparr>"
  by (simp add: elapse_def showCustomMessageBox_def setTimeout_def setMessageBox_def init_def)

text \<open>
  C9, amended. A notification replaces the message shown and is visible at once. After
  \<open>d\<close> ms without another event it is hidden if \<open>d\<close> has reached 3000 or if a timer
  pending from an earlier notification has come due in between; otherwise it is still
  visible with its message. So it is hidden 3 seconds after the call at the latest, and
  it stays for the full 3 seconds when no earlier timer is pending.
\<close>

theorem notify_visible_until_a_timer_fires:
  "messageBox (showCustomMessageBox m s) = \<lparr> visible = True, content = m \<rparr>
   \<and> messageBox (elapse d (showCustomMessageBox m s)) =
       (if (\<exists>t \<in> set (timers s). t \<le> clock s + d) \<or> 3000 \<le> d
        then \<lparr> visible = False, content = [] \<rparr>
        else \<lparr> visible = True, content = m \<rparr>)"
  by (auto simp: elapse_def Let_def fold_hide filter_empty_conv showCustomMessageBox_def
      setTimeout_def setMessageBox_def)

theorem notify_visible_until_a_timer_fires_witness:
  "messageBox (elapse 2999 (showCustomMessageBox ''saved'' init)) =
     \<lparr> visible = True, content = ''saved'' \<rparr>
   \<and> messageBox (elapse 3000 (showCustomMessageBox ''saved'' init)) =
     \<lparr> visible = False, content = [] \<rparr>
   \<and> (\<exists>t \<in> set (timers (elapse 2000 (showCustomMessageBox ''first'' init))).
         t \<le> clock (elapse 2000 (showCustomMessageBox ''first'' init)) + 1000)
   \<and> messageBox (elapse 1000 (showCustomMessageBox ''second''
        (elapse 2000 (showCustomMessageBox ''first'' init)))) = \<lparr> visible = False, content = [] \<rparr>"
proof -
  have fresh: "\<not> (\<exists>t \<in> set (timers init). t \<le> clock init + d)" for d
    by (simp add: init_def)
  have stale: "\<exists>t \<in> set (timers (elapse 2000 (showCustomMessageBox ''first'' init))).
      t \<le> clock (elapse 2000 (showCustomMessageBox ''first'' init)) + 1000"
    by (simp add: elapse_def showCustomMessageBox_def setTimeout_def setMessageBox_def init_def)
  show ?thesis
    using fresh [of 2999] fresh [of 3000] stale
      notify_visible_until_a_timer_fires [of "''saved''" init 2999]
      notify_visible_until_a_timer_fires [of "''saved''" init 3000]
      notify_visible_until_a_timer_fires [of "''second''"
        "elapse 2000 (showCustomMessageBox ''first'' init)" 1000]
    by simp
qed

subsection \<open>Events that carry no file\<close>

text \<open>
  C10. With an empty file list the selection handler returns the state as it was, and the
  drop handler changes nothing but the drag flag: no error is set and the selected file
  stays. A drop clears the drag flag whatever it carries, no file, an image or another
  file.
\<close>

theorem no_file_leaves_state:
  "handleFileChange [] s = s
   \<and> handleDrop [] s = s\<lparr> isDragOver := False, calls := calls s @ [SetIsDragOver False] \<rparr>
   \<and> selectedImage (handleDrop [] s) = selectedImage s
   \<and> error (handleDrop [] s) = error s
   \<and> isDragOver (handleDrop files s) = False"
  by (simp add: handleFileChange_def handleDrop_def first_file_def setter_defs Let_def
      split: list.splits)

end
